theory Spec2Isabelle
  imports Main "HOL-Library.Char_ord" "HOL-Library.List_Lexorder"
begin

section \<open>JSON values and their serialisation\<close>

text \<open>
  The structured objects handled by the service (schemas, example outputs, the items of
  a query-analysis response) are Python values obtained from JSON: \<open>None\<close>, booleans,
  integers, strings, lists and dictionaries with string keys. A dictionary keeps the
  order in which its keys were inserted, so it is an association list; its keys are
  pairwise distinct. Floating-point numbers are not part of the model, and a character
  is a code point below 256.
\<close>

datatype json =
    JNull
  | JBool bool
  | JInt int
  | JStr string
  | JList "json list"
  | JDict "(string \<times> json) list"

text \<open>
  \<open>json.dumps\<close> of the Python standard library, with its default settings
  (\<open>ensure_ascii=True\<close>, item separator \<open>", "\<close>, key separator \<open>": "\<close>) and the
  \<open>sort_keys\<close> flag. A string is quoted; the quote, the backslash and the characters
  outside the printable ASCII range \<open>0x20 .. 0x7E\<close> are escaped.
\<close>

definition hex_digit :: "nat \<Rightarrow> char" where
  "hex_digit n = ''0123456789abcdef'' ! n"

definition escape_char :: "char \<Rightarrow> string" where
  "escape_char c =
     (if c = CHR 0x22 then [CHR 0x5C, CHR 0x22]
      else if c = CHR 0x5C then [CHR 0x5C, CHR 0x5C]
      else if c = CHR 0x0A then [CHR 0x5C, CHR ''n'']
      else if c = CHR 0x0D then [CHR 0x5C, CHR ''r'']
      else if c = CHR 0x09 then [CHR 0x5C, CHR ''t'']
      else if c = CHR 0x08 then [CHR 0x5C, CHR ''b'']
      else if c = CHR 0x0C then [CHR 0x5C, CHR ''f'']
      else if 32 \<le> (of_char c :: nat) \<and> (of_char c :: nat) \<le> 126 then [c]
      else [CHR 0x5C, CHR ''u'', CHR ''0'', CHR ''0'',
            hex_digit ((of_char c :: nat) div 16), hex_digit ((of_char c :: nat) mod 16)])"

definition encode_basestring_ascii :: "string \<Rightarrow> string" where
  "encode_basestring_ascii s = [CHR 0x22] @ concat (map escape_char s) @ [CHR 0x22]"

fun digits :: "nat \<Rightarrow> string" where
  "digits n = (if n < 10 then [''0123456789'' ! n]
               else digits (n div 10) @ [''0123456789'' ! (n mod 10)])"

declare digits.simps [simp del]

definition int_repr :: "int \<Rightarrow> string" where
  "int_repr i = (if i < 0 then ''-'' @ digits (nat (- i)) else digits (nat i))"

fun join :: "string \<Rightarrow> string list \<Rightarrow> string" where
  "join sep [] = []"
| "join sep [x] = x"
| "join sep (x # y # ys) = x @ sep @ join sep (y # ys)"

text \<open>
  With \<open>sort_keys\<close> the items of a dictionary are written in the order of their keys
  (Python: \<open>sorted(dct.items())\<close>; strings compare lexicographically by code point),
  at every nesting depth, since the flag is passed down unchanged. The values are
  rendered by the recursive call and the rendered items are then ordered by key, which
  is the same as ordering the items first (lemma \<open>sort_then_render\<close> below).
\<close>

primrec json_dumps :: "bool \<Rightarrow> json \<Rightarrow> string" where
  "json_dumps sort_keys JNull = ''null''"
| "json_dumps sort_keys (JBool b) = (if b then ''true'' else ''false'')"
| "json_dumps sort_keys (JInt i) = int_repr i"
| "json_dumps sort_keys (JStr s) = encode_basestring_ascii s"
| "json_dumps sort_keys (JList xs) =
     ''['' @ join '', '' (map (json_dumps sort_keys) xs) @ '']''"
| "json_dumps sort_keys (JDict kvs) =
     ''{'' @ join '', ''
        (map (\<lambda>(k, v). encode_basestring_ascii k @ '': '' @ v)
          ((if sort_keys then sort_key fst else id)
             (map (map_prod id (json_dumps sort_keys)) kvs))) @ ''}''"


section \<open>Query aggregation: \<open>_deduplicate\<close>\<close>

text \<open>
  \<open>QueryAnalysisResponse\<close> is a dictionary with the single field \<open>data\<close>.
\<close>

record QueryAnalysisResponse =
  data :: "json list"

text \<open>
  The body of the inner loop of \<open>_deduplicate\<close>: the state is the pair of the list
  \<open>unique\<close> and the set \<open>seen\<close>.
\<close>

definition dedup_item :: "json \<Rightarrow> json list \<times> string set \<Rightarrow> json list \<times> string set" where
  "dedup_item data_item st =
     (case st of (unique, seen) \<Rightarrow>
        let serialized = json_dumps True data_item in
        if serialized \<notin> seen then (unique @ [data_item], insert serialized seen)
        else (unique, seen))"

definition deduplicate :: "QueryAnalysisResponse list \<Rightarrow> QueryAnalysisResponse" where
  "deduplicate responses =
     (case fold (\<lambda>response. fold dedup_item (data response)) responses ([], {}) of
        (unique, seen) \<Rightarrow> \<lparr>data = unique\<rparr>)"

text \<open>
  The contract in the words of the specification: of a list of items, keep the item at
  position \<open>i\<close> exactly when no earlier position holds an item with the same key, in
  the order of the positions.
\<close>

definition first_occurrences :: "('a \<Rightarrow> 'k) \<Rightarrow> 'a list \<Rightarrow> 'a list" where
  "first_occurrences key xs =
     map ((!) xs) (filter (\<lambda>i. \<forall>j\<in>{0..<i}. key (xs ! j) \<noteq> key (xs ! i)) [0..<length xs])"

definition canonical :: "json \<Rightarrow> string" where
  "canonical item = json_dumps True item"


section \<open>Exceptions\<close>

text \<open>
  The exceptions that can leave a function of the service: the two error classes of
  the JSON-Schema validator, each with its message, the HTTP error of the web framework
  with its status code and detail, Python's \<open>ValueError\<close> with its message, and any
  other exception (of the schema translator or of the model provider), by its text.
  \<open>ValidationError\<close> and \<open>SchemaError\<close> are different classes: a handler
  \<open>except exceptions.ValidationError\<close> catches the first and lets the second pass.
\<close>

datatype exception =
    ValidationError string
  | SchemaError string
  | HTTPException nat string
  | ValueError string
  | OtherException string


section \<open>Format-string templates\<close>

text \<open>
  The chat library reads the text of a pair of a role and a text as a template in the
  syntax of Python's \<open>str.format\<close> and finds its variables with
  \<open>string.Formatter().parse\<close>. That parser cuts the text into segments: a literal text,
  followed or not by a replacement field \<open>{name!conversion:spec}\<close>; \<open>{{\<close> and \<open>}}\<close>
  stand for one brace and end a segment. It raises \<open>ValueError\<close> on a text whose
  braces do not fit this syntax. The three functions below follow the parser of the
  interpreter: the end of a field name (a bracketed part of a name is skipped up to
  its closing bracket), the end of a format specification (braces may nest in it), and
  a whole field after its opening brace.
\<close>

datatype field = Field string string "char option"

type_synonym segment = "string \<times> field option"

definition is_brace :: "char \<Rightarrow> bool" where
  "is_brace c = (c = CHR ''{'' \<or> c = CHR ''}'')"

definition quoted :: "char \<Rightarrow> string" where
  "quoted c = [CHR 0x27, c, CHR 0x27]"

fun field_name_end :: "bool \<Rightarrow> string \<Rightarrow> string \<Rightarrow> exception + string \<times> char \<times> string" where
  "field_name_end in_brackets name [] =
     Inl (ValueError (''expected '' @ quoted CHR ''}'' @ '' before end of string''))"
| "field_name_end in_brackets name (c # cs) =
     (if in_brackets then field_name_end (c \<noteq> CHR '']'') (name @ [c]) cs
      else if c = CHR ''{'' then
        Inl (ValueError (''unexpected '' @ quoted CHR ''{'' @ '' in field name''))
      else if c = CHR ''['' then field_name_end True (name @ [c]) cs
      else if c = CHR ''}'' \<or> c = CHR '':'' \<or> c = CHR ''!'' then Inr (name, c, cs)
      else field_name_end False (name @ [c]) cs)"

fun format_spec_end :: "nat \<Rightarrow> string \<Rightarrow> string \<Rightarrow> exception + string \<times> string" where
  "format_spec_end count spec [] =
     Inl (ValueError (''unmatched '' @ quoted CHR ''{'' @ '' in format spec''))"
| "format_spec_end count spec (c # cs) =
     (if c = CHR ''{'' then format_spec_end (Suc count) (spec @ [c]) cs
      else if c = CHR ''}'' then
        (if count = 1 then Inr (spec, cs) else format_spec_end (count - 1) (spec @ [c]) cs)
      else format_spec_end count (spec @ [c]) cs)"

definition parse_field :: "string \<Rightarrow> exception + field \<times> string" where
  "parse_field s =
     (case field_name_end False [] s of
        Inl e \<Rightarrow> Inl e
      | Inr (name, c, rest) \<Rightarrow>
          if c = CHR ''}'' then Inr (Field name [] None, rest)
          else if c = CHR ''!'' then
            (case rest of
               [] \<Rightarrow> Inl (ValueError ''end of string while looking for conversion specifier'')
             | conversion # rest1 \<Rightarrow>
                 (case rest1 of
                    [] \<Rightarrow> map_sum id (\<lambda>(spec, r). (Field name spec (Some conversion), r))
                            (format_spec_end 1 [] [])
                  | c2 # rest2 \<Rightarrow>
                      if c2 = CHR ''}'' then Inr (Field name [] (Some conversion), rest2)
                      else if c2 \<noteq> CHR '':'' then
                        Inl (ValueError (''expected '' @ quoted CHR '':'' @
                                         '' after conversion specifier''))
                      else map_sum id (\<lambda>(spec, r). (Field name spec (Some conversion), r))
                             (format_spec_end 1 [] rest2)))
          else map_sum id (\<lambda>(spec, r). (Field name spec None, r)) (format_spec_end 1 [] rest))"

text \<open>
  The segments of a template text, as \<open>list(string.Formatter().parse(s))\<close> gives them,
  or the \<open>ValueError\<close> that it raises.
\<close>

function parse_template :: "string \<Rightarrow> exception + segment list" where
  "parse_template s =
     (if s = [] then Inr []
      else
        (case dropWhile (\<lambda>c. \<not> is_brace c) s of
           [] \<Rightarrow> Inr [(s, None)]
         | c # rest \<Rightarrow>
             if c = CHR ''}'' \<and> (rest = [] \<or> hd rest \<noteq> CHR ''}'') then
               Inl (ValueError (''Single '' @ quoted CHR ''}'' @ '' encountered in format string''))
             else if rest = [] then
               Inl (ValueError (''Single '' @ quoted CHR ''{'' @ '' encountered in format string''))
             else if hd rest = c then
               (case parse_template (tl rest) of
                  Inl e \<Rightarrow> Inl e
                | Inr segments \<Rightarrow>
                    Inr ((takeWhile (\<lambda>c. \<not> is_brace c) s @ [c], None) # segments))
             else
               (case parse_field rest of
                  Inl e \<Rightarrow> Inl e
                | Inr (field, rest') \<Rightarrow>
                    (case parse_template rest' of
                       Inl e \<Rightarrow> Inl e
                     | Inr segments \<Rightarrow>
                         Inr ((takeWhile (\<lambda>c. \<not> is_brace c) s, Some field) # segments)))))"
  by pat_completeness auto
termination
proof (relation "measure length")
  show "wf (measure length)"
    by simp
next
  fix s :: string and c rest
  assume "dropWhile (\<lambda>c. \<not> is_brace c) s = c # rest"
  then have "length (c # rest) \<le> length s"
    by (metis length_dropWhile_le)
  then show "(tl rest, s) \<in> measure length"
    by (cases rest) auto
next
  fix s :: string and c rest x field rest'
  assume drop: "dropWhile (\<lambda>c. \<not> is_brace c) s = c # rest"
    and field: "parse_field rest = Inr x" "(field, rest') = x"
  have name: "field_name_end b n u = Inr (n', t, r) \<Longrightarrow> length r < length u" for b n u n' t r
    by (induction b n u rule: field_name_end.induct) (auto split: if_splits)
  have spec: "format_spec_end k a u = Inr (a', r) \<Longrightarrow> length r < length u" for k a u a' r
    by (induction k a u rule: format_spec_end.induct) (auto split: if_splits)
  have "length rest' < length rest"
    using field name spec
    by (fastforce simp: parse_field_def map_sum_def
          split: sum.splits prod.splits if_splits list.splits)
  moreover have "length (c # rest) \<le> length s"
    using drop by (metis length_dropWhile_le)
  ultimately show "(rest', s) \<in> measure length"
    by simp
qed

declare parse_template.simps [simp del]


section \<open>Prompt assembly: \<open>_make_prompt_template\<close>\<close>

text \<open>
  A message of the conversation (\<open>AnyMessage\<close>) is one of the message classes of the
  chat library, with its text \<open>content\<close> and its dictionary \<open>additional_kwargs\<close>.
\<close>

datatype any_message =
    AIMessage string json
  | HumanMessage string json
  | SystemMessage string json
  | ChatMessage string json
  | FunctionMessage string json
  | ToolMessage string json

text \<open>
  A component of a prompt (\<open>MessageLikeRepresentation\<close>): a pair of a role and a text,
  a message, or a named placeholder that is filled with messages at invocation time.
\<close>

datatype message_like =
    RoleContent string string
  | Message any_message
  | MessagesPlaceholder string

text \<open>
  An entry of a chat prompt template: the message template made from a pair of a role
  and a text (its role, its text and the segments of the text), a message kept as it
  is, or a placeholder.
\<close>

datatype message_template =
    MessagePromptTemplate string string "segment list"
  | KeptMessage any_message
  | Placeholder string

text \<open>
  \<open>ChatPromptTemplate.from_messages\<close>: one entry per component, in the order of the
  list. The text of a pair is parsed as a template, and the \<open>ValueError\<close> of the parser
  leaves the call; a message and a placeholder are kept as they are. The source only
  uses the roles \<open>system\<close> and \<open>human\<close>; filling the template with values happens when
  the prompt is invoked and is not part of \<open>from_messages\<close>.
\<close>

definition convert_to_message_template :: "message_like \<Rightarrow> exception + message_template" where
  "convert_to_message_template component =
     (case component of
        RoleContent role text \<Rightarrow>
          (case parse_template text of
             Inl e \<Rightarrow> Inl e
           | Inr segments \<Rightarrow> Inr (MessagePromptTemplate role text segments))
      | Message m \<Rightarrow> Inr (KeptMessage m)
      | MessagesPlaceholder variable_name \<Rightarrow> Inr (Placeholder variable_name))"

fun from_messages :: "message_like list \<Rightarrow> exception + message_template list" where
  "from_messages [] = Inr []"
| "from_messages (component # components) =
     (case convert_to_message_template component of
        Inl e \<Rightarrow> Inl e
      | Inr entry \<Rightarrow>
          (case from_messages components of
             Inl e \<Rightarrow> Inl e
           | Inr entries \<Rightarrow> Inr (entry # entries)))"

text \<open>
  An example record: its input messages and its expected output, a list of objects
  (the field \<open>output\<close> of the source).
\<close>

record QueryAnalysisExample =
  messages :: "any_message list"
  example_output :: "json list"

definition prefix :: string where
  "prefix = ''You are a world class expert at converting user questions into database '' @
            ''queries. Given a question, return a list of database queries optimized to '' @
            ''retrieve the most relevant results.''"

text \<open>
  \<open>if instructions:\<close> tests the truth value of an optional string: \<open>None\<close> and the
  empty string are both false.
\<close>

definition truthy :: "string option \<Rightarrow> bool" where
  "truthy instructions = (case instructions of None \<Rightarrow> False | Some s \<Rightarrow> s \<noteq> [])"

definition system_message :: "string option \<Rightarrow> message_like" where
  "system_message instructions =
     (if truthy instructions
      then RoleContent ''system'' (prefix @ [CHR 0x0A, CHR 0x0A] @ the instructions)
      else RoleContent ''system'' prefix)"

text \<open>
  The body of the loop over the examples: the assistant message it builds, and the
  list that is passed to \<open>prompt_components.extend\<close>.
\<close>

definition function_call_message :: "string \<Rightarrow> QueryAnalysisExample \<Rightarrow> any_message" where
  "function_call_message function_name example =
     (let function_call =
        JDict [(''arguments'', JStr (json_dumps False (JDict [(''data'', JList (example_output example))]))),
               (''name'', JStr function_name)]
      in AIMessage [] (JDict [(''function_call'', function_call)]))"

definition example_components :: "string \<Rightarrow> QueryAnalysisExample \<Rightarrow> message_like list" where
  "example_components function_name example =
     map Message (messages example) @ [Message (function_call_message function_name example)]"

text \<open>
  The list \<open>prompt_components\<close> as it stands at the last line of \<open>_make_prompt_template\<close>
  (lines 106 to 138 of the source), and the function itself, which returns what
  \<open>ChatPromptTemplate.from_messages\<close> makes of that list (line 139) or raises what that
  call raises.
\<close>

definition prompt_components ::
    "string option \<Rightarrow> QueryAnalysisExample list option \<Rightarrow> string \<Rightarrow> message_like list" where
  "prompt_components instructions examples function_name =
     (let prompt_components = [system_message instructions];
          prompt_components =
            (case examples of
               None \<Rightarrow> prompt_components
             | Some exs \<Rightarrow>
                 fold (\<lambda>example components. components @ example_components function_name example)
                   exs prompt_components)
      in prompt_components @ [MessagesPlaceholder ''input''])"

definition make_prompt_template ::
    "string option \<Rightarrow> QueryAnalysisExample list option \<Rightarrow> string \<Rightarrow>
       exception + message_template list" where
  "make_prompt_template instructions examples function_name =
     from_messages (prompt_components instructions examples function_name)"


section \<open>The HTTP surface: \<open>extract\<close> and \<open>query_analyzer\<close>\<close>

record ExtractRequest =
  input_text :: string
  schema :: json

record ExtractResponse =
  extracted :: json

text \<open>
  The request of the query analyzer: the fields \<open>messages\<close>, \<open>json_schema\<close> (alias
  \<open>schema\<close>), \<open>instructions\<close> and \<open>examples\<close> of the source.
\<close>

record QueryAnalysisRequest =
  request_messages :: "any_message list"
  json_schema :: json
  request_instructions :: "string option"
  request_examples :: "QueryAnalysisExample list option"

text \<open>
  The function descriptor returned by the schema translator.
\<close>

record openai_function =
  name :: string
  description :: string
  parameters :: json

text \<open>
  The collaborators of the handlers are parameters of the model:
  \<^item> \<open>check_schema\<close> is \<open>Draft202012Validator.check_schema\<close>: \<open>None\<close> when it returns,
    \<open>Some e\<close> when it raises \<open>e\<close>;
  \<^item> \<open>validate_json_schema\<close> is the function of that name of \<open>server.validators\<close>, which
    is not among the source files: \<open>None\<close> when it returns, \<open>Some e\<close> when it raises \<open>e\<close>;
  \<^item> \<open>convert_json_schema_to_openai_schema\<close> is the schema translator of
    \<open>extraction.utils\<close>;
  \<^item> \<open>fn_runnable_invoke functions prompt text\<close> is the call
    \<open>create_openai_fn_runnable(functions, llm=model, prompt).invoke({"text": text})\<close>;
  \<^item> \<open>structured_output_ainvoke function prompt messages\<close> is the call
    \<open>(prompt | model.with_structured_output(function)).ainvoke({"input": messages})\<close>.
  The last three return \<open>Inl e\<close> when they raise \<open>e\<close>.
\<close>

record collaborators =
  check_schema :: "json \<Rightarrow> exception option"
  validate_json_schema :: "json \<Rightarrow> exception option"
  convert_json_schema_to_openai_schema :: "json \<Rightarrow> exception + openai_function"
  fn_runnable_invoke ::
    "openai_function list \<Rightarrow> message_template list \<Rightarrow> string \<Rightarrow> exception + json"
  structured_output_ainvoke ::
    "openai_function \<Rightarrow> message_template list \<Rightarrow> any_message list \<Rightarrow>
       exception + QueryAnalysisResponse"

text \<open>
  A handler returns its outcome (the exception it raises, or its response) together
  with the calls to the collaborators that it has made, in the order of the calls.
\<close>

datatype call =
    CheckSchema json
  | ValidateJsonSchema json
  | ConvertSchema json
  | InvokeModel "message_template list" "openai_function list"

text \<open>
  The two pairs that the handler \<open>extract\<close> hands to \<open>ChatPromptTemplate.from_messages\<close>,
  and the template that the call makes of them (lemma \<open>from_messages_extract\<close> below):
  the text of the second pair has the one variable \<open>text\<close>.
\<close>

definition extract_messages :: "message_like list" where
  "extract_messages =
     [RoleContent ''system''
        (''You are a top-tier algorithm for extracting information from text. '' @
         ''Only extract information that is relevant to the provided text. '' @
         ''If no information is relevant, use the schema and output '' @
         ''an empty list where appropriate.''),
      RoleContent ''human''
        (''I need to extract information from the following text: ```'' @ [CHR 0x0A] @
         ''{text}'' @ [CHR 0x0A] @ ''```'' @ [CHR 0x0A])]"

definition extract_prompt :: "message_template list" where
  "extract_prompt =
     [MessagePromptTemplate ''system''
        (''You are a top-tier algorithm for extracting information from text. '' @
         ''Only extract information that is relevant to the provided text. '' @
         ''If no information is relevant, use the schema and output '' @
         ''an empty list where appropriate.'')
        [(''You are a top-tier algorithm for extracting information from text. '' @
          ''Only extract information that is relevant to the provided text. '' @
          ''If no information is relevant, use the schema and output '' @
          ''an empty list where appropriate.'', None)],
      MessagePromptTemplate ''human''
        (''I need to extract information from the following text: ```'' @ [CHR 0x0A] @
         ''{text}'' @ [CHR 0x0A] @ ''```'' @ [CHR 0x0A])
        [(''I need to extract information from the following text: ```'' @ [CHR 0x0A],
          Some (Field ''text'' [] None)),
         ([CHR 0x0A] @ ''```'' @ [CHR 0x0A], None)]]"

text \<open>
  The handler \<open>extract\<close> of the route \<open>/extract_from_text\<close>.
\<close>

definition extract_from_text ::
    "collaborators \<Rightarrow> ExtractRequest \<Rightarrow> (exception + ExtractResponse) \<times> call list" where
  "extract_from_text env extract_request =
     (case check_schema env (schema extract_request) of
        Some (ValidationError message) \<Rightarrow>
          (Inl (HTTPException 422 (''Invalid schema: '' @ message)),
           [CheckSchema (schema extract_request)])
      | Some e \<Rightarrow> (Inl e, [CheckSchema (schema extract_request)])
      | None \<Rightarrow>
          (case from_messages extract_messages of
             Inl e \<Rightarrow> (Inl e, [CheckSchema (schema extract_request)])
           | Inr prompt \<Rightarrow>
          (case convert_json_schema_to_openai_schema env (schema extract_request) of
             Inl e \<Rightarrow>
               (Inl e,
                [CheckSchema (schema extract_request), ConvertSchema (schema extract_request)])
           | Inr openai_function \<Rightarrow>
               (case fn_runnable_invoke env [openai_function] prompt
                       (input_text extract_request) of
                  Inl e \<Rightarrow>
                    (Inl e,
                     [CheckSchema (schema extract_request),
                      ConvertSchema (schema extract_request),
                      InvokeModel prompt [openai_function]])
                | Inr extracted_content \<Rightarrow>
                    (Inr \<lparr>extracted = extracted_content\<rparr>,
                     [CheckSchema (schema extract_request),
                      ConvertSchema (schema extract_request),
                      InvokeModel prompt [openai_function]])))))"

text \<open>
  The body of the chain \<open>query_analyzer\<close>, given a request that has been built. The
  prompt is assembled after the translation of the schema; when the assembly raises,
  the model is not invoked.
\<close>

definition query_analyzer ::
    "collaborators \<Rightarrow> QueryAnalysisRequest \<Rightarrow>
       (exception + QueryAnalysisResponse) \<times> call list" where
  "query_analyzer env request =
     (case check_schema env (json_schema request) of
        Some (ValidationError message) \<Rightarrow>
          (Inl (HTTPException 422 (''Invalid schema: '' @ message)),
           [CheckSchema (json_schema request)])
      | Some e \<Rightarrow> (Inl e, [CheckSchema (json_schema request)])
      | None \<Rightarrow>
          (case convert_json_schema_to_openai_schema env (json_schema request) of
             Inl e \<Rightarrow>
               (Inl e, [CheckSchema (json_schema request), ConvertSchema (json_schema request)])
           | Inr openai_function \<Rightarrow>
               let function_name = name openai_function in
               (case make_prompt_template (request_instructions request)
                       (request_examples request) function_name of
                  Inl e \<Rightarrow>
                    (Inl e,
                     [CheckSchema (json_schema request), ConvertSchema (json_schema request)])
                | Inr prompt \<Rightarrow>
                    (structured_output_ainvoke env openai_function prompt
                       (request_messages request),
                     [CheckSchema (json_schema request), ConvertSchema (json_schema request),
                      InvokeModel prompt [openai_function]]))))"

text \<open>
  The validator \<open>validate_schema\<close> of the field \<open>json_schema\<close> runs when a request is
  built, before the body of the chain: it calls \<open>validate_json_schema\<close> and returns the
  schema unchanged. An exception of \<open>validate_json_schema\<close> leaves the construction
  (the framework reports a \<open>ValueError\<close>, \<open>TypeError\<close> or \<open>AssertionError\<close> of a
  validator as a validation error of its own, which the model does not tell apart),
  and the body does not run.
\<close>

definition validate_schema :: "collaborators \<Rightarrow> json \<Rightarrow> exception + json" where
  "validate_schema env v =
     (case validate_json_schema env v of Some e \<Rightarrow> Inl e | None \<Rightarrow> Inr v)"

definition build_request ::
    "collaborators \<Rightarrow> any_message list \<Rightarrow> json \<Rightarrow> string option \<Rightarrow>
       QueryAnalysisExample list option \<Rightarrow> exception + QueryAnalysisRequest" where
  "build_request env msgs schema_value instructions examples =
     (case validate_schema env schema_value of
        Inl e \<Rightarrow> Inl e
      | Inr v \<Rightarrow>
          Inr \<lparr>request_messages = msgs, json_schema = v,
               request_instructions = instructions, request_examples = examples\<rparr>)"

definition query_analysis_endpoint ::
    "collaborators \<Rightarrow> any_message list \<Rightarrow> json \<Rightarrow> string option \<Rightarrow>
       QueryAnalysisExample list option \<Rightarrow>
       (exception + QueryAnalysisResponse) \<times> call list" where
  "query_analysis_endpoint env msgs schema_value instructions examples =
     (case build_request env msgs schema_value instructions examples of
        Inl e \<Rightarrow> (Inl e, [ValidateJsonSchema schema_value])
      | Inr request \<Rightarrow>
          (fst (query_analyzer env request),
           ValidateJsonSchema schema_value # snd (query_analyzer env request)))"

text \<open>
  A stub of the collaborators for running the handlers on concrete requests: the
  validator is given, \<open>validate_json_schema\<close> accepts every schema, the translator wraps
  the schema under the fixed name \<open>extractor\<close>, the extraction model echoes the text
  and the query model returns the given response.
\<close>

definition stub_collaborators ::
    "(json \<Rightarrow> exception option) \<Rightarrow> QueryAnalysisResponse \<Rightarrow> collaborators" where
  "stub_collaborators check response =
     \<lparr>check_schema = check,
      validate_json_schema = (\<lambda>s. None),
      convert_json_schema_to_openai_schema =
        (\<lambda>s. Inr \<lparr>name = ''extractor'', description = [], parameters = s\<rparr>),
      fn_runnable_invoke = (\<lambda>functions prompt text. Inr (JStr text)),
      structured_output_ainvoke = (\<lambda>function prompt msgs. Inr response)\<rparr>"


section \<open>The schema translator: the name of the function descriptor\<close>

text \<open>
  Modelled from the spec: \<open>convert_json_schema_to_openai_schema\<close> of the module
  \<open>extraction.utils\<close> is not among the source files. The specification (section 4.1)
  derives the \<open>name\<close> of the function descriptor as follows: the declared title of the
  schema if it is present and not empty, sanitized so that only alphanumeric
  characters and the underscore remain; otherwise a fixed generic identifier, for
  which it gives \<open>extractor\<close>. It leaves open whether a disallowed character is
  stripped or replaced: the model replaces it by the string \<open>repl\<close>, and stripping is
  the case of the empty \<open>repl\<close>.
\<close>

definition is_token_char :: "char \<Rightarrow> bool" where
  "is_token_char c =
     (c \<in> set (''abcdefghijklmnopqrstuvwxyz'' @ ''ABCDEFGHIJKLMNOPQRSTUVWXYZ'' @
               ''0123456789'' @ ''_''))"

definition valid_function_name :: "string \<Rightarrow> bool" where
  "valid_function_name s = list_all is_token_char s"

definition sanitize :: "string \<Rightarrow> string \<Rightarrow> string" where
  "sanitize repl title = concat (map (\<lambda>c. if is_token_char c then [c] else repl) title)"

definition default_function_name :: string where
  "default_function_name = ''extractor''"

definition schema_title :: "json \<Rightarrow> string option" where
  "schema_title S =
     (case S of
        JDict kvs \<Rightarrow> (case map_of kvs ''title'' of Some (JStr t) \<Rightarrow> Some t | _ \<Rightarrow> None)
      | _ \<Rightarrow> None)"

definition translate_name :: "string \<Rightarrow> json \<Rightarrow> string" where
  "translate_name repl S =
     (case schema_title S of
        Some t \<Rightarrow> if t \<noteq> [] then sanitize repl t else default_function_name
      | None \<Rightarrow> default_function_name)"



section \<open>Properties of the serialisation\<close>

lemma sort_then_render:
  fixes kvs :: "('k::linorder \<times> 'v) list"
  shows "sort_key fst (map (map_prod id f) kvs) = map (map_prod id f) (sort_key fst kvs)"
proof -
  define g where "g = map_prod (id :: 'k \<Rightarrow> 'k) f"
  have key: "fst (g kv) = fst kv" for kv
    by (cases kv) (simp add: g_def)
  have ins: "insort_key fst (g kv) (map g ys) = map g (insort_key fst kv ys)" for kv ys
    by (induction ys) (simp_all add: key)
  have "sort_key fst (map g kvs) = map g (sort_key fst kvs)"
    by (induction kvs) (simp_all add: ins)
  then show ?thesis
    by (simp only: g_def)
qed


section \<open>Properties of \<open>_deduplicate\<close>\<close>

lemma first_occurrences_snoc:
  "first_occurrences key (xs @ [x]) =
     first_occurrences key xs @ (if key x \<in> key ` set xs then [] else [x])"
proof -
  let ?n = "length xs"
  let ?P = "\<lambda>ys i. \<forall>j\<in>{0..<i}. key (ys ! j) \<noteq> key (ys ! i)"
  have old: "filter (?P (xs @ [x])) [0..<?n] = filter (?P xs) [0..<?n]"
    by (rule filter_cong) (auto simp: nth_append)
  have keep: "map ((!) (xs @ [x])) (filter (?P xs) [0..<?n]) =
      map ((!) xs) (filter (?P xs) [0..<?n])"
    by (rule map_cong) (auto simp: nth_append)
  have new: "?P (xs @ [x]) ?n \<longleftrightarrow> key x \<notin> key ` set xs"
  proof -
    have "?P (xs @ [x]) ?n \<longleftrightarrow> (\<forall>j. j < ?n \<longrightarrow> key (xs ! j) \<noteq> key x)"
      by (auto simp: nth_append)
    also have "\<dots> \<longleftrightarrow> (\<forall>y\<in>set xs. key y \<noteq> key x)"
      by (simp add: all_set_conv_all_nth)
    also have "\<dots> \<longleftrightarrow> key x \<notin> key ` set xs"
      by (metis image_iff)
    finally show ?thesis .
  qed
  show ?thesis
    unfolding first_occurrences_def
    using old keep new by (simp del: upt_Suc add: upt_Suc_append)
qed

lemma fold_dedup_item:
  "fold dedup_item xs ([], {}) = (first_occurrences canonical xs, canonical ` set xs)"
proof (induction xs rule: rev_induct)
  case Nil
  show ?case by (simp add: first_occurrences_def)
next
  case (snoc x xs)
  then show ?case
    by (auto simp: dedup_item_def first_occurrences_snoc canonical_def Let_def)
qed

lemma deduplicate_first_occurrences:
  "data (deduplicate responses) = first_occurrences canonical (concat (map data responses))"
proof -
  have "fold (\<lambda>response. fold dedup_item (data response)) responses st =
      fold dedup_item (concat (map data responses)) st" for st
    by (induction responses arbitrary: st) simp_all
  then show ?thesis
    by (simp add: deduplicate_def fold_dedup_item)
qed


lemma first_occurrences_keys:
  "key ` set (first_occurrences key xs) = key ` set xs"
  by (induction xs rule: rev_induct)
     (auto simp: first_occurrences_def [of _ "[]"] first_occurrences_snoc)

lemma first_occurrences_distinct:
  "distinct (map key (first_occurrences key xs))"
proof (induction xs rule: rev_induct)
  case Nil
  show ?case by (simp add: first_occurrences_def)
next
  case (snoc x xs)
  have "key x \<notin> key ` set xs \<Longrightarrow> key x \<notin> key ` set (first_occurrences key xs)"
    by (simp add: first_occurrences_keys)
  with snoc show ?case by (simp add: first_occurrences_snoc)
qed

text \<open>
  C1. For every sequence of responses, \<open>_deduplicate\<close> goes through the responses in
  the given order and through the items of each response in the given order; two items
  are the same exactly when their serialisations with sorted keys are equal strings;
  the item at a position is kept exactly when no earlier position holds the same
  serialisation, and the kept items are returned in the order of their positions. The
  serialisations of the kept items are pairwise different and are all the serialisations
  that occur. On the two responses \<open>[{"a": 1}, {"a": 2}]\<close> and \<open>[{"a": 1}, {"a": 3}]\<close>
  the result is \<open>[{"a": 1}, {"a": 2}, {"a": 3}]\<close>.
\<close>

theorem deduplicate_keeps_first_occurrences:
  "data (deduplicate responses) =
     first_occurrences (json_dumps True) (concat (map data responses))
   \<and> distinct (map (json_dumps True) (data (deduplicate responses)))
   \<and> json_dumps True ` set (data (deduplicate responses)) =
       json_dumps True ` set (concat (map data responses))
   \<and> deduplicate
       [\<lparr>data = [JDict [(''a'', JInt 1)], JDict [(''a'', JInt 2)]]\<rparr>,
        \<lparr>data = [JDict [(''a'', JInt 1)], JDict [(''a'', JInt 3)]]\<rparr>] =
      \<lparr>data = [JDict [(''a'', JInt 1)], JDict [(''a'', JInt 2)], JDict [(''a'', JInt 3)]]\<rparr>"
proof -
  have c: "canonical = json_dumps True"
    by (rule ext) (simp add: canonical_def)
  have "deduplicate
       [\<lparr>data = [JDict [(''a'', JInt 1)], JDict [(''a'', JInt 2)]]\<rparr>,
        \<lparr>data = [JDict [(''a'', JInt 1)], JDict [(''a'', JInt 3)]]\<rparr>] =
      \<lparr>data = [JDict [(''a'', JInt 1)], JDict [(''a'', JInt 2)], JDict [(''a'', JInt 3)]]\<rparr>"
    by code_simp
  then show ?thesis
    using deduplicate_first_occurrences [of responses]
      first_occurrences_distinct [of canonical] first_occurrences_keys [of canonical]
    by (simp only: c)
qed

text \<open>
  The theorem at two responses whose first holds the same object twice, with the keys
  of a nested object in different orders: the second copy is dropped.
\<close>

theorem deduplicate_keeps_first_occurrences_witness:
  "data (deduplicate
      [\<lparr>data = [JDict [(''q'', JDict [(''x'', JInt 1), (''y'', JStr ''b'')])],
                JDict [(''q'', JDict [(''y'', JStr ''b''), (''x'', JInt 1)])]]\<rparr>,
       \<lparr>data = [JDict [(''q'', JInt 2)]]\<rparr>]) =
     [JDict [(''q'', JDict [(''x'', JInt 1), (''y'', JStr ''b'')])], JDict [(''q'', JInt 2)]]
   \<and> first_occurrences (json_dumps True)
       [JDict [(''q'', JDict [(''x'', JInt 1), (''y'', JStr ''b'')])],
        JDict [(''q'', JDict [(''y'', JStr ''b''), (''x'', JInt 1)])],
        JDict [(''q'', JInt 2)]] =
     [JDict [(''q'', JDict [(''x'', JInt 1), (''y'', JStr ''b'')])], JDict [(''q'', JInt 2)]]"
proof -
  let ?rs = "[\<lparr>data = [JDict [(''q'', JDict [(''x'', JInt 1), (''y'', JStr ''b'')])],
                JDict [(''q'', JDict [(''y'', JStr ''b''), (''x'', JInt 1)])]]\<rparr>,
       \<lparr>data = [JDict [(''q'', JInt 2)]]\<rparr>]"
  have run: "data (deduplicate ?rs) =
     [JDict [(''q'', JDict [(''x'', JInt 1), (''y'', JStr ''b'')])], JDict [(''q'', JInt 2)]]"
    by code_simp
  have items: "concat (map data ?rs) =
       [JDict [(''q'', JDict [(''x'', JInt 1), (''y'', JStr ''b'')])],
        JDict [(''q'', JDict [(''y'', JStr ''b''), (''x'', JInt 1)])],
        JDict [(''q'', JInt 2)]]"
    by simp
  from deduplicate_keeps_first_occurrences [of ?rs]
  have "data (deduplicate ?rs) = first_occurrences (json_dumps True) (concat (map data ?rs))"
    by (rule conjunct1)
  then show ?thesis
    by (simp only: run items)
qed



section \<open>Properties of the schema translator\<close>

lemma sanitize_valid:
  "list_all is_token_char repl \<Longrightarrow> list_all is_token_char (sanitize repl title)"
  by (induction title) (simp_all add: sanitize_def)

lemma sanitize_valid_title:
  "list_all is_token_char title \<Longrightarrow> sanitize repl title = title"
  by (induction title) (simp_all add: sanitize_def)

lemma sanitize_nonempty:
  "repl \<noteq> [] \<Longrightarrow> title \<noteq> [] \<Longrightarrow> sanitize repl title \<noteq> []"
  by (cases title) (simp_all add: sanitize_def)


lemma default_function_name_valid:
  "list_all is_token_char default_function_name"
  unfolding default_function_name_def by code_simp

lemma translate_name_with_title:
  "schema_title S = Some t \<Longrightarrow> t \<noteq> [] \<Longrightarrow> translate_name repl S = sanitize repl t"
  by (simp add: translate_name_def)

lemma translate_name_without_title:
  "schema_title S = None \<or> schema_title S = Some [] \<Longrightarrow>
   translate_name repl S = default_function_name"
  by (auto simp: translate_name_def)

lemma translate_name_valid:
  "list_all is_token_char repl \<Longrightarrow> list_all is_token_char (translate_name repl S)"
  by (cases "schema_title S")
     (simp_all add: translate_name_def sanitize_valid default_function_name_valid)

lemma translate_name_nonempty:
  "repl \<noteq> [] \<Longrightarrow> translate_name repl S \<noteq> []"
  by (cases "schema_title S")
     (simp_all add: translate_name_def sanitize_nonempty default_function_name_def)

text \<open>
  C8. For every schema \<open>S\<close>, the name that the translator derives is a token of
  alphanumeric characters and underscores (given that the replacement string is one),
  and it is a function of \<open>S\<close> alone, so that two calls with the same schema give the
  same name. When \<open>S\<close> has a title that is not empty, the name is the sanitized title,
  and a title that is already a token is kept as it is; when \<open>S\<close> has no title, or an
  empty one, the name is the fixed default \<open>extractor\<close>. With a replacement string
  that is not empty the name is not empty.
\<close>

theorem translate_name_is_token:
  "(list_all is_token_char repl \<longrightarrow> valid_function_name (translate_name repl S))
   \<and> (schema_title S = Some t \<and> t \<noteq> [] \<longrightarrow> translate_name repl S = sanitize repl t)
   \<and> (valid_function_name t \<longrightarrow> sanitize repl t = t)
   \<and> (schema_title S = None \<or> schema_title S = Some [] \<longrightarrow>
        translate_name repl S = default_function_name)
   \<and> (S' = S \<longrightarrow> translate_name repl S' = translate_name repl S)
   \<and> (repl \<noteq> [] \<longrightarrow> translate_name repl S \<noteq> [])"
  using translate_name_valid [of repl S] translate_name_with_title [of S t repl]
    sanitize_valid_title [of t repl] translate_name_without_title [of S repl]
    translate_name_nonempty [of repl S]
  unfolding valid_function_name_def by blast


text \<open>
  The theorem at the object schema with the title \<open>Person Info!\<close> and at the object
  schema without a title, with the underscore as the replacement.
\<close>

theorem translate_name_is_token_witness:
  "translate_name ''_'' (JDict [(''type'', JStr ''object''), (''title'', JStr ''Person Info!'')]) =
     ''Person_Info_''
   \<and> valid_function_name ''Person_Info_''
   \<and> translate_name ''_'' (JDict [(''type'', JStr ''object'')]) = ''extractor''"
proof -
  let ?S = "JDict [(''type'', JStr ''object''), (''title'', JStr ''Person Info!'')]"
  let ?T = "JDict [(''type'', JStr ''object'')]"
  have t1: "schema_title ?S = Some ''Person Info!''"
    by code_simp
  have t0: "schema_title ?T = None"
    by code_simp
  have s: "sanitize ''_'' ''Person Info!'' = ''Person_Info_''"
    by code_simp
  have r: "list_all is_token_char ''_''"
    by code_simp
  from translate_name_is_token [of "''_''" ?S "''Person Info!''"] t1 r
  have "valid_function_name (translate_name ''_'' ?S)"
    and "translate_name ''_'' ?S = sanitize ''_'' ''Person Info!''"
    by blast+
  moreover from translate_name_is_token [of "''_''" ?T] t0
  have "translate_name ''_'' ?T = default_function_name"
    by blast
  ultimately show ?thesis
    by (simp only: s default_function_name_def simp_thms)
qed


section \<open>Properties of the template parser and of \<open>from_messages\<close>\<close>

lemma parse_template_literal:
  assumes "s \<noteq> []" and "\<forall>c\<in>set s. \<not> is_brace c"
  shows "parse_template s = Inr [(s, None)]"
proof -
  have rest: "dropWhile (\<lambda>c. \<not> is_brace c) s = []"
    using assms(2) by simp
  show ?thesis
    by (subst parse_template.simps) (simp only: rest assms(1) if_False list.case)
qed

lemma prefix_no_brace: "\<forall>c\<in>set prefix. \<not> is_brace c"
  by (simp add: prefix_def is_brace_def)

lemma prefix_nonempty: "prefix \<noteq> []"
  by (simp add: prefix_def)

lemma parse_template_prefix: "parse_template prefix = Inr [(prefix, None)]"
  by (rule parse_template_literal [OF prefix_nonempty prefix_no_brace])


lemma from_messages_append:
  "from_messages (xs @ ys) =
     (case from_messages xs of
        Inl e \<Rightarrow> Inl e
      | Inr a \<Rightarrow> (case from_messages ys of Inl e \<Rightarrow> Inl e | Inr b \<Rightarrow> Inr (a @ b)))"
  by (induction xs) (simp_all split: sum.split)

lemma from_messages_kept:
  "from_messages (map Message ms) = Inr (map KeptMessage ms)"
  by (induction ms) (simp_all add: convert_to_message_template_def)

lemma from_messages_example_components:
  "from_messages (concat (map (example_components f) exs)) =
     Inr (concat (map (\<lambda>ex. map KeptMessage (messages ex) @
                             [KeptMessage (function_call_message f ex)]) exs))"
  by (induction exs)
     (simp_all add: from_messages_append from_messages_kept example_components_def
        convert_to_message_template_def)

lemma from_messages_extract: "from_messages extract_messages = Inr extract_prompt"
  unfolding extract_messages_def extract_prompt_def by code_simp


section \<open>Properties of \<open>_make_prompt_template\<close>\<close>

lemma fold_example_components:
  "fold (\<lambda>example components. components @ example_components f example) exs acc =
     acc @ concat (map (example_components f) exs)"
  by (induction exs arbitrary: acc) simp_all

lemma prompt_components_Some:
  "prompt_components instructions (Some exs) f =
     system_message instructions # concat (map (example_components f) exs) @
     [MessagesPlaceholder ''input'']"
  by (simp add: prompt_components_def fold_example_components)

lemma prompt_components_None:
  "prompt_components instructions None f =
     [system_message instructions, MessagesPlaceholder ''input'']"
  by (simp add: prompt_components_def)

lemma system_message_text:
  "system_message instructions =
     RoleContent ''system''
       (case instructions of
          None \<Rightarrow> prefix
        | Some s \<Rightarrow> if s = [] then prefix else prefix @ [CHR 0x0A, CHR 0x0A] @ s)"
  by (simp add: system_message_def truthy_def split: option.split)

lemma function_call_message_payload:
  "function_call_message f ex =
     AIMessage []
       (JDict [(''function_call'',
          JDict [(''arguments'',
                    JStr (json_dumps False (JDict [(''data'', JList (example_output ex))]))),
                 (''name'', JStr f)])])"
  by (simp add: function_call_message_def del: json_dumps.simps)

lemma make_prompt_template_Some:
  assumes "system_message instructions = RoleContent role text"
  shows "make_prompt_template instructions (Some exs) f =
     (case parse_template text of
        Inl e \<Rightarrow> Inl e
      | Inr segments \<Rightarrow>
          Inr (MessagePromptTemplate role text segments #
               concat (map (\<lambda>ex. map KeptMessage (messages ex) @
                                  [KeptMessage (function_call_message f ex)]) exs) @
               [Placeholder ''input'']))"
  by (simp add: make_prompt_template_def prompt_components_Some assms
        convert_to_message_template_def from_messages_append
        from_messages_example_components split: sum.split)

lemma make_prompt_template_None:
  assumes "system_message instructions = RoleContent role text"
  shows "make_prompt_template instructions None f =
     (case parse_template text of
        Inl e \<Rightarrow> Inl e
      | Inr segments \<Rightarrow> Inr [MessagePromptTemplate role text segments, Placeholder ''input''])"
  by (simp add: make_prompt_template_def prompt_components_None assms
        convert_to_message_template_def split: sum.split)





text \<open>
  C4, as the specification states it, fails: the arguments of the function call are
  written by \<open>json.dumps\<close> without \<open>sort_keys\<close>. For the example output
  \<open>[{"b": 1, "a": 2}]\<close> the arguments are \<open>{"data": [{"b": 1, "a": 2}]}\<close>, and the
  string with sorted keys is \<open>{"data": [{"a": 2, "b": 1}]}\<close>.
\<close>

theorem function_call_arguments_not_sorted:
  "make_prompt_template None
     (Some [\<lparr>messages = [], example_output = [JDict [(''b'', JInt 1), (''a'', JInt 2)]]\<rparr>]) ''f'' =
     Inr [MessagePromptTemplate ''system'' prefix [(prefix, None)],
          KeptMessage (AIMessage []
            (JDict [(''function_call'',
               JDict [(''arguments'', JStr ''{\"data\": [{\"b\": 1, \"a\": 2}]}''),
                      (''name'', JStr ''f'')])])),
          Placeholder ''input'']
   \<and> json_dumps True (JDict [(''data'', JList [JDict [(''b'', JInt 1), (''a'', JInt 2)]])]) =
     ''{\"data\": [{\"a\": 2, \"b\": 1}]}''
   \<and> ''{\"data\": [{\"b\": 1, \"a\": 2}]}'' \<noteq> ''{\"data\": [{\"a\": 2, \"b\": 1}]}''"
proof -
  have plain: "json_dumps False (JDict [(''data'', JList [JDict [(''b'', JInt 1), (''a'', JInt 2)]])]) =
     ''{\"data\": [{\"b\": 1, \"a\": 2}]}''"
    by code_simp
  have sorted_keys: "json_dumps True (JDict [(''data'', JList [JDict [(''b'', JInt 1), (''a'', JInt 2)]])]) =
     ''{\"data\": [{\"a\": 2, \"b\": 1}]}''"
    by code_simp
  have sys: "system_message None = RoleContent ''system'' prefix"
    by (simp add: system_message_text)
  have template: "make_prompt_template None
     (Some [\<lparr>messages = [], example_output = [JDict [(''b'', JInt 1), (''a'', JInt 2)]]\<rparr>]) ''f'' =
     Inr [MessagePromptTemplate ''system'' prefix [(prefix, None)],
          KeptMessage (AIMessage []
            (JDict [(''function_call'',
               JDict [(''arguments'',
                        JStr (json_dumps False
                          (JDict [(''data'', JList [JDict [(''b'', JInt 1), (''a'', JInt 2)]])]))),
                      (''name'', JStr ''f'')])])),
          Placeholder ''input'']"
    by (simp add: make_prompt_template_Some [OF sys] parse_template_prefix
          function_call_message_payload del: json_dumps.simps)
  show ?thesis
    using template sorted_keys by (simp only: plain) simp
qed

text \<open>
  C4, amended. For every example record, wherever it stands in the list of examples,
  and every function name \<open>f\<close>, the message appended after the messages of the example
  is an assistant message with empty text content whose \<open>function_call\<close> has the name
  \<open>f\<close> and, as arguments, the JSON string of the object \<open>{"data": example.output}\<close>
  with the keys of every object in the order in which the object holds them. This
  holds of the list handed to \<open>from_messages\<close> and, whenever a template is built, of the
  template, where the message is kept as it is.
\<close>

theorem function_call_message_of_example:
  "prompt_components instructions (Some (before @ ex # after)) f =
     butlast (prompt_components instructions (Some before) f) @
     map Message (messages ex) @
     [Message (AIMessage []
        (JDict [(''function_call'',
           JDict [(''arguments'',
                     JStr (json_dumps False (JDict [(''data'', JList (example_output ex))]))),
                  (''name'', JStr f)])]))] @
     tl (prompt_components instructions (Some after) f)
   \<and> (\<forall>entries. make_prompt_template instructions (Some (before @ ex # after)) f = Inr entries \<longrightarrow>
        (\<exists>entries1 entries2.
           make_prompt_template instructions (Some before) f = Inr entries1
           \<and> make_prompt_template instructions (Some after) f = Inr entries2
           \<and> entries =
             butlast entries1 @
             map KeptMessage (messages ex) @
             [KeptMessage (AIMessage []
                (JDict [(''function_call'',
                   JDict [(''arguments'',
                             JStr (json_dumps False
                               (JDict [(''data'', JList (example_output ex))]))),
                          (''name'', JStr f)])]))] @
             tl entries2))"
proof -
  obtain t where sys: "system_message instructions = RoleContent ''system'' t"
    by (simp add: system_message_text)
  have "butlast (prompt_components instructions (Some before) f) =
      system_message instructions # concat (map (example_components f) before)"
    by (simp add: prompt_components_Some butlast_append)
  moreover have "tl (prompt_components instructions (Some after) f) =
      concat (map (example_components f) after) @ [MessagesPlaceholder ''input'']"
    by (simp add: prompt_components_Some)
  ultimately have components:
    "prompt_components instructions (Some (before @ ex # after)) f =
     butlast (prompt_components instructions (Some before) f) @
     map Message (messages ex) @
     [Message (AIMessage []
        (JDict [(''function_call'',
           JDict [(''arguments'',
                     JStr (json_dumps False (JDict [(''data'', JList (example_output ex))]))),
                  (''name'', JStr f)])]))] @
     tl (prompt_components instructions (Some after) f)"
    by (simp add: prompt_components_Some example_components_def function_call_message_payload
          del: json_dumps.simps)
  have built: "\<exists>entries1 entries2.
           make_prompt_template instructions (Some before) f = Inr entries1
           \<and> make_prompt_template instructions (Some after) f = Inr entries2
           \<and> entries =
             butlast entries1 @
             map KeptMessage (messages ex) @
             [KeptMessage (AIMessage []
                (JDict [(''function_call'',
                   JDict [(''arguments'',
                             JStr (json_dumps False
                               (JDict [(''data'', JList (example_output ex))]))),
                          (''name'', JStr f)])]))] @
             tl entries2"
    if "make_prompt_template instructions (Some (before @ ex # after)) f = Inr entries"
    for entries
    using that
    by (auto simp: make_prompt_template_Some [OF sys] function_call_message_payload
          butlast_append split: sum.splits simp del: json_dumps.simps)
  show ?thesis
    using components built by blast
qed

text \<open>
  The theorem at a list of three examples, for the one in the middle.
\<close>

theorem function_call_message_of_example_witness:
  "\<exists>entries1 entries2.
     make_prompt_template None
       (Some [\<lparr>messages = [HumanMessage ''one'' (JDict [])], example_output = []\<rparr>]) ''f'' =
       Inr entries1
     \<and> make_prompt_template None
       (Some [\<lparr>messages = [], example_output = [JInt 3]\<rparr>]) ''f'' = Inr entries2
     \<and> make_prompt_template None
       (Some [\<lparr>messages = [HumanMessage ''one'' (JDict [])], example_output = []\<rparr>,
              \<lparr>messages = [HumanMessage ''two'' (JDict [])],
               example_output = [JDict [(''b'', JInt 1), (''a'', JInt 2)]]\<rparr>,
              \<lparr>messages = [], example_output = [JInt 3]\<rparr>]) ''f'' =
       Inr (butlast entries1 @
            [KeptMessage (HumanMessage ''two'' (JDict [])),
             KeptMessage (AIMessage []
               (JDict [(''function_call'',
                  JDict [(''arguments'',
                            JStr (json_dumps False
                              (JDict [(''data'',
                                 JList [JDict [(''b'', JInt 1), (''a'', JInt 2)]])]))),
                         (''name'', JStr ''f'')])]))] @
            tl entries2)"
proof -
  let ?one = "\<lparr>messages = [HumanMessage ''one'' (JDict [])], example_output = []\<rparr>"
  let ?two = "\<lparr>messages = [HumanMessage ''two'' (JDict [])],
               example_output = [JDict [(''b'', JInt 1), (''a'', JInt 2)]]\<rparr>"
  let ?three = "\<lparr>messages = [], example_output = [JInt 3]\<rparr>"
  have sys: "system_message None = RoleContent ''system'' prefix"
    by (simp add: system_message_text)
  obtain entries where run: "make_prompt_template None (Some ([?one] @ ?two # [?three])) ''f'' =
      Inr entries"
    by (simp add: make_prompt_template_Some [OF sys] parse_template_prefix)
  from function_call_message_of_example [of None "[?one]" ?two "[?three]" "''f''"] run
  obtain entries1 entries2 where
    "make_prompt_template None (Some [?one]) ''f'' = Inr entries1"
    "make_prompt_template None (Some [?three]) ''f'' = Inr entries2"
    "entries = butlast entries1 @ map KeptMessage (messages ?two) @
       [KeptMessage (AIMessage []
          (JDict [(''function_call'',
             JDict [(''arguments'',
                       JStr (json_dumps False
                         (JDict [(''data'', JList (example_output ?two))]))),
                    (''name'', JStr ''f'')])]))] @ tl entries2"
    by blast
  with run show ?thesis
    by (simp del: json_dumps.simps)
qed




text \<open>
  C6. For every function name, the template built with no instructions and no examples
  is the system message holding the bare preamble, kept literally, followed only by
  the placeholder \<open>input\<close>.
\<close>

theorem make_prompt_template_bare:
  "make_prompt_template None None f =
     Inr [MessagePromptTemplate ''system'' prefix [(prefix, None)], Placeholder ''input'']
   \<and> prompt_components None None f =
     [RoleContent ''system'' prefix, MessagesPlaceholder ''input'']"
proof -
  have sys: "system_message None = RoleContent ''system'' prefix"
    by (simp add: system_message_text)
  show ?thesis
    by (simp add: make_prompt_template_None [OF sys] parse_template_prefix
          prompt_components_None sys)
qed



section \<open>Properties of the handlers\<close>

lemma extract_from_text_check_raises:
  "check_schema env (schema req) = Some e \<Longrightarrow>
   extract_from_text env req =
     (Inl (case e of ValidationError m \<Rightarrow> HTTPException 422 (''Invalid schema: '' @ m) | _ \<Rightarrow> e),
      [CheckSchema (schema req)])"
  by (cases e) (simp_all add: extract_from_text_def)

lemma query_analyzer_check_raises:
  "check_schema env (json_schema req) = Some e \<Longrightarrow>
   query_analyzer env req =
     (Inl (case e of ValidationError m \<Rightarrow> HTTPException 422 (''Invalid schema: '' @ m) | _ \<Rightarrow> e),
      [CheckSchema (json_schema req)])"
  by (cases e) (simp_all add: query_analyzer_def)

lemma extract_from_text_check_passes:
  "check_schema env (schema req) = None \<Longrightarrow>
   extract_from_text env req =
     (case convert_json_schema_to_openai_schema env (schema req) of
        Inl e \<Rightarrow> (Inl e, [CheckSchema (schema req), ConvertSchema (schema req)])
      | Inr fn \<Rightarrow>
          (map_sum id (\<lambda>c. \<lparr>extracted = c\<rparr>)
             (fn_runnable_invoke env [fn] extract_prompt (input_text req)),
           [CheckSchema (schema req), ConvertSchema (schema req),
            InvokeModel extract_prompt [fn]]))"
  by (simp add: extract_from_text_def from_messages_extract split: sum.split)

lemma query_analyzer_check_passes:
  "check_schema env (json_schema req) = None \<Longrightarrow>
   query_analyzer env req =
     (case convert_json_schema_to_openai_schema env (json_schema req) of
        Inl e \<Rightarrow> (Inl e, [CheckSchema (json_schema req), ConvertSchema (json_schema req)])
      | Inr fn \<Rightarrow>
          (case make_prompt_template (request_instructions req) (request_examples req)
                  (name fn) of
             Inl e \<Rightarrow> (Inl e, [CheckSchema (json_schema req), ConvertSchema (json_schema req)])
           | Inr prompt \<Rightarrow>
               (structured_output_ainvoke env fn prompt (request_messages req),
                [CheckSchema (json_schema req), ConvertSchema (json_schema req),
                 InvokeModel prompt [fn]])))"
  by (simp add: query_analyzer_def Let_def split: sum.split)

text \<open>
  When the validator signals an invalid schema with a \<open>ValidationError\<close>, both handlers
  raise the HTTP error 422 whose detail is \<open>Invalid schema: \<close> followed by the message
  of the validator.
\<close>

lemma validation_error_is_422:
  "check_schema env (schema req) = Some (ValidationError m) \<Longrightarrow>
     fst (extract_from_text env req) = Inl (HTTPException 422 (''Invalid schema: '' @ m))"
  "check_schema env (json_schema qreq) = Some (ValidationError m) \<Longrightarrow>
     fst (query_analyzer env qreq) = Inl (HTTPException 422 (''Invalid schema: '' @ m))"
  by (simp_all add: extract_from_text_check_raises query_analyzer_check_raises)

text \<open>
  When \<open>validate_json_schema\<close> raises while the request of the query analyzer is built,
  the exception leaves the endpoint and the body of the chain does not run.
\<close>

lemma query_analysis_endpoint_validator_raises:
  "validate_json_schema env s = Some e \<Longrightarrow>
   query_analysis_endpoint env msgs s instructions examples = (Inl e, [ValidateJsonSchema s])"
  by (simp add: query_analysis_endpoint_def build_request_def validate_schema_def)

lemma query_analysis_endpoint_validator_returns:
  "validate_json_schema env s = None \<Longrightarrow>
   query_analysis_endpoint env msgs s instructions examples =
     (fst (query_analyzer env
        \<lparr>request_messages = msgs, json_schema = s,
         request_instructions = instructions, request_examples = examples\<rparr>),
      ValidateJsonSchema s #
      snd (query_analyzer env
        \<lparr>request_messages = msgs, json_schema = s,
         request_instructions = instructions, request_examples = examples\<rparr>))"
  by (simp add: query_analysis_endpoint_def build_request_def validate_schema_def)

text \<open>
  C3. The claim is that every request whose schema fails the structural validation is
  answered with the status 422 and the detail \<open>Invalid schema: <message>\<close>, by both
  handlers. By the interface of the validator library,
  \<open>Draft202012Validator.check_schema\<close> signals an invalid schema by raising
  \<open>SchemaError\<close>; this is the hypothesis of the theorem, not a part of the model. The
  handlers catch \<open>ValidationError\<close> only: when the validator raises \<open>SchemaError\<close>,
  both handlers let it pass, and the outcome is that exception, not the HTTP error 422.
\<close>

theorem schema_error_is_not_caught:
  "(check_schema env (schema req) = Some (SchemaError m) \<longrightarrow>
      fst (extract_from_text env req) = Inl (SchemaError m)
      \<and> fst (extract_from_text env req) \<noteq> Inl (HTTPException 422 (''Invalid schema: '' @ m)))
   \<and> (check_schema env (json_schema qreq) = Some (SchemaError m) \<longrightarrow>
      fst (query_analyzer env qreq) = Inl (SchemaError m)
      \<and> fst (query_analyzer env qreq) \<noteq> Inl (HTTPException 422 (''Invalid schema: '' @ m)))"
  by (simp add: extract_from_text_check_raises query_analyzer_check_raises)

text \<open>
  The theorem at the request \<open>{"text": "x", "schema": {"type": "bogus"}}\<close> and at a
  query-analysis request with the same schema, with a validator that raises
  \<open>SchemaError\<close> for this schema.
\<close>

theorem schema_error_is_not_caught_witness:
  "fst (extract_from_text
         (stub_collaborators
            (\<lambda>s. if s = JDict [(''type'', JStr ''bogus'')]
                  then Some (SchemaError ''bogus is not valid under any of the given schemas'')
                  else None)
            \<lparr>data = []\<rparr>)
         \<lparr>input_text = ''x'', schema = JDict [(''type'', JStr ''bogus'')]\<rparr>) =
     Inl (SchemaError ''bogus is not valid under any of the given schemas'')
   \<and> fst (query_analyzer
         (stub_collaborators
            (\<lambda>s. if s = JDict [(''type'', JStr ''bogus'')]
                  then Some (SchemaError ''bogus is not valid under any of the given schemas'')
                  else None)
            \<lparr>data = []\<rparr>)
         \<lparr>request_messages = [HumanMessage ''x'' (JDict [])],
          json_schema = JDict [(''type'', JStr ''bogus'')],
          request_instructions = None, request_examples = None\<rparr>) =
     Inl (SchemaError ''bogus is not valid under any of the given schemas'')"
  using schema_error_is_not_caught
    [of "stub_collaborators
            (\<lambda>s. if s = JDict [(''type'', JStr ''bogus'')]
                  then Some (SchemaError ''bogus is not valid under any of the given schemas'')
                  else None)
            \<lparr>data = []\<rparr>"
        "\<lparr>input_text = ''x'', schema = JDict [(''type'', JStr ''bogus'')]\<rparr>"
        "''bogus is not valid under any of the given schemas''"
        "\<lparr>request_messages = [HumanMessage ''x'' (JDict [])],
          json_schema = JDict [(''type'', JStr ''bogus'')],
          request_instructions = None, request_examples = None\<rparr>"]
  by (simp add: stub_collaborators_def)

text \<open>
  C7. The claim is that the handler of \<open>/extract_from_text\<close> validates the schema first
  and, for an invalid schema, raises the 422 error before the schema is translated and
  before the model is invoked. The validation is indeed the first call of every run,
  and when the validator raises \<open>SchemaError\<close>, as it does for an invalid schema, no
  other call is made and there is no response. But what leaves the handler is that
  \<open>SchemaError\<close>, which the handler does not catch, and not an HTTP error 422.
\<close>

theorem schema_error_leaves_extract_from_text:
  "(\<exists>rest. snd (extract_from_text env req) = CheckSchema (schema req) # rest)
   \<and> (check_schema env (schema req) = Some (SchemaError m) \<longrightarrow>
        extract_from_text env req = (Inl (SchemaError m), [CheckSchema (schema req)])
        \<and> (\<forall>detail. fst (extract_from_text env req) \<noteq> Inl (HTTPException 422 detail)))"
proof -
  have first: "\<exists>rest. snd (extract_from_text env req) = CheckSchema (schema req) # rest"
  proof (cases "check_schema env (schema req)")
    case None
    then show ?thesis
      by (simp add: extract_from_text_check_passes split: sum.split)
  next
    case (Some e)
    then show ?thesis
      by (simp add: extract_from_text_check_raises)
  qed
  then show ?thesis
    by (simp add: extract_from_text_check_raises)
qed

text \<open>
  The theorem at the request \<open>{"text": "x", "schema": {"type": "bogus"}}\<close>, with a
  validator that raises \<open>SchemaError\<close> for this schema and with a translator and a
  model that would have answered.
\<close>

theorem schema_error_leaves_extract_from_text_witness:
  "extract_from_text
     (stub_collaborators
        (\<lambda>s. if s = JDict [(''type'', JStr ''bogus'')]
              then Some (SchemaError ''bogus is not valid under any of the given schemas'')
              else None)
        \<lparr>data = []\<rparr>)
     \<lparr>input_text = ''x'', schema = JDict [(''type'', JStr ''bogus'')]\<rparr> =
     (Inl (SchemaError ''bogus is not valid under any of the given schemas''),
      [CheckSchema (JDict [(''type'', JStr ''bogus'')])])"
  using schema_error_leaves_extract_from_text
    [of "stub_collaborators
          (\<lambda>s. if s = JDict [(''type'', JStr ''bogus'')]
                then Some (SchemaError ''bogus is not valid under any of the given schemas'')
                else None)
          \<lparr>data = []\<rparr>"
        "\<lparr>input_text = ''x'', schema = JDict [(''type'', JStr ''bogus'')]\<rparr>"
        "''bogus is not valid under any of the given schemas''"]
  by (simp add: stub_collaborators_def)

text \<open>
  C9. Neither handler passes the answer of the model through \<open>_deduplicate\<close>: after a
  successful validation, translation and prompt assembly, the query analyzer makes one
  call to the model and its outcome is the outcome of that call as it is (when the
  prompt assembly raises, the model is not called and there is no response), and every
  response of either handler is the answer of its model, unchanged.
\<close>

theorem handlers_return_model_response_unchanged:
  "(check_schema env (json_schema request) = None \<and>
    convert_json_schema_to_openai_schema env (json_schema request) = Inr fn \<and>
    make_prompt_template (request_instructions request) (request_examples request) (name fn) =
      Inr prompt \<longrightarrow>
      query_analyzer env request =
        (structured_output_ainvoke env fn prompt (request_messages request),
         [CheckSchema (json_schema request), ConvertSchema (json_schema request),
          InvokeModel prompt [fn]]))
   \<and> (check_schema env (json_schema request) = None \<and>
    convert_json_schema_to_openai_schema env (json_schema request) = Inr fn \<and>
    make_prompt_template (request_instructions request) (request_examples request) (name fn) =
      Inl e \<longrightarrow>
      query_analyzer env request =
        (Inl e, [CheckSchema (json_schema request), ConvertSchema (json_schema request)]))
   \<and> (fst (query_analyzer env request) = Inr response \<longrightarrow>
        (\<exists>fn prompt.
           structured_output_ainvoke env fn prompt (request_messages request) = Inr response))
   \<and> (fst (extract_from_text env req) = Inr r \<longrightarrow>
        (\<exists>fn. fn_runnable_invoke env [fn] extract_prompt (input_text req) = Inr (extracted r)))"
proof -
  have query: "\<exists>fn prompt.
      structured_output_ainvoke env fn prompt (request_messages request) = Inr response"
    if "fst (query_analyzer env request) = Inr response"
  proof (cases "check_schema env (json_schema request)")
    case None
    with that show ?thesis
      by (auto simp: query_analyzer_check_passes split: sum.splits)
  next
    case (Some e)
    with that show ?thesis
      by (simp add: query_analyzer_check_raises)
  qed
  have extraction: "\<exists>fn. fn_runnable_invoke env [fn] extract_prompt (input_text req) =
      Inr (extracted r)"
    if "fst (extract_from_text env req) = Inr r"
  proof (cases "check_schema env (schema req)")
    case None
    with that show ?thesis
      by (auto simp: extract_from_text_check_passes map_sum_def split: sum.splits)
  next
    case (Some e)
    with that show ?thesis
      by (simp add: extract_from_text_check_raises)
  qed
  show ?thesis
    using query extraction by (simp add: query_analyzer_check_passes)
qed

text \<open>
  The theorem at a request whose model answer holds the same object twice: the
  response of the query analyzer holds it twice as well, and \<open>_deduplicate\<close> would
  have kept one copy.
\<close>

theorem handlers_return_model_response_unchanged_witness:
  "fst (query_analyzer
      (stub_collaborators (\<lambda>s. None) \<lparr>data = [JDict [(''a'', JInt 1)], JDict [(''a'', JInt 1)]]\<rparr>)
      \<lparr>request_messages = [HumanMessage ''x'' (JDict [])],
       json_schema = JDict [(''type'', JStr ''object'')],
       request_instructions = None, request_examples = None\<rparr>) =
     Inr \<lparr>data = [JDict [(''a'', JInt 1)], JDict [(''a'', JInt 1)]]\<rparr>
   \<and> deduplicate [\<lparr>data = [JDict [(''a'', JInt 1)], JDict [(''a'', JInt 1)]]\<rparr>] =
     \<lparr>data = [JDict [(''a'', JInt 1)]]\<rparr>"
proof -
  have dedup: "deduplicate [\<lparr>data = [JDict [(''a'', JInt 1)], JDict [(''a'', JInt 1)]]\<rparr>] =
     \<lparr>data = [JDict [(''a'', JInt 1)]]\<rparr>"
    by code_simp
  have sys: "system_message None = RoleContent ''system'' prefix"
    by (simp add: system_message_text)
  have prompt: "make_prompt_template None None ''extractor'' =
      Inr [MessagePromptTemplate ''system'' prefix [(prefix, None)], Placeholder ''input'']"
    by (simp add: make_prompt_template_None [OF sys] parse_template_prefix)
  show ?thesis
    using dedup prompt handlers_return_model_response_unchanged
      [of "stub_collaborators (\<lambda>s. None)
             \<lparr>data = [JDict [(''a'', JInt 1)], JDict [(''a'', JInt 1)]]\<rparr>"
          "\<lparr>request_messages = [HumanMessage ''x'' (JDict [])],
            json_schema = JDict [(''type'', JStr ''object'')],
            request_instructions = None, request_examples = None\<rparr>"
          "\<lparr>name = ''extractor'', description = [],
            parameters = JDict [(''type'', JStr ''object'')]\<rparr>"
          "[MessagePromptTemplate ''system'' prefix [(prefix, None)], Placeholder ''input'']"]
    by (simp add: stub_collaborators_def)
qed

end
